theory Spec2Isabelle
  imports Complex_Main
begin

section \<open>Route guard (src/middleware.ts)\<close>

text \<open>
  A request, as far as \<^verbatim>\<open>middleware\<close> reads it: the parsed cookie jar
  (\<^verbatim>\<open>req.cookies\<close>, cookie name to cookie value) and \<^verbatim>\<open>req.nextUrl.pathname\<close>.
  A cookie sent as \<^verbatim>\<open>token=\<close> is in the jar with the empty string as its value.
\<close>

record NextRequest =
  cookies :: "string \<rightharpoonup> string"
  pathname :: string

text \<open>
  The response: \<^verbatim>\<open>NextResponse.redirect(new URL(p, req.url))\<close> is \<open>Redirect p\<close> (the
  path \<open>p\<close> on the origin of the request itself), \<^verbatim>\<open>NextResponse.next()\<close> is \<open>Next\<close>.
\<close>

datatype NextResponse = Redirect string | Next

text \<open>
  JavaScript truthiness of a value of type \<^verbatim>\<open>string | undefined\<close>: \<^verbatim>\<open>undefined\<close> and
  the empty string are falsy, every other string is truthy.
\<close>

fun truthy :: "string option \<Rightarrow> bool" where
  "truthy None = False"
| "truthy (Some v) = (v \<noteq> [])"

definition protectedRoutes :: "string list" where
  "protectedRoutes = [''/add'', ''/edit/:id'', ''/'']"

definition authRoutes :: "string list" where
  "authRoutes = [''/login'', ''/signup'']"

text \<open>\<^verbatim>\<open>Array.prototype.includes\<close> on strings: equality with one of the elements.\<close>

definition array_includes :: "string list \<Rightarrow> string \<Rightarrow> bool" where
  "array_includes xs x = (x \<in> set xs)"

definition middleware :: "NextRequest \<Rightarrow> NextResponse" where
  "middleware req =
    (let token = cookies req ''token'';
         currentPath = pathname req
     in if truthy token \<and> array_includes authRoutes currentPath then Redirect ''/''
        else if \<not> truthy token \<and> array_includes protectedRoutes currentPath then Redirect ''/login''
        else Next)"

text \<open>
  The pages the specification calls protected, in its own words: \<^verbatim>\<open>/add\<close>, \<^verbatim>\<open>/\<close>, and
  \<^verbatim>\<open>/edit/:id\<close> for any concrete id, that is \<^verbatim>\<open>/edit/\<close> followed by one non-empty path
  segment. This predicate is the specification's reading, to be compared with
  \<open>protectedRoutes\<close>, which is what the code tests.
\<close>

definition spec_edit_page :: "string \<Rightarrow> bool" where
  "spec_edit_page p =
    (take 6 p = ''/edit/'' \<and> drop 6 p \<noteq> [] \<and> CHR ''/'' \<notin> set (drop 6 p))"

definition spec_protected_page :: "string \<Rightarrow> bool" where
  "spec_protected_page p = (p = ''/add'' \<or> spec_edit_page p \<or> p = ''/'')"

text \<open>The specification's auth pages: \<^verbatim>\<open>/login\<close> and \<^verbatim>\<open>/signup\<close>.\<close>

definition spec_auth_page :: "string \<Rightarrow> bool" where
  "spec_auth_page p = (p = ''/login'' \<or> p = ''/signup'')"

section \<open>Viewport classifier (src/hooks/useResponsive.tsx)\<close>

text \<open>
  The media queries the hook passes to \<^verbatim>\<open>window.matchMedia\<close>, and when they match a
  viewport of a given width in CSS pixels (Media Queries: \<^verbatim>\<open>max-width: n\<close> matches
  widths up to and including \<open>n\<close>, \<^verbatim>\<open>min-width: n\<close> widths from \<open>n\<close> on).
\<close>

datatype media_query =
    MaxWidth real
  | MinWidth real
  | And media_query media_query

fun matches :: "real \<Rightarrow> media_query \<Rightarrow> bool" where
  "matches w (MaxWidth n) = (w \<le> n)"
| "matches w (MinWidth n) = (n \<le> w)"
| "matches w (And q r) = (matches w q \<and> matches w r)"

text \<open>
  The hook's state: the three \<^verbatim>\<open>useState\<close> cells, and whether the effect's
  \<^verbatim>\<open>resize\<close> listener is registered on the window.
\<close>

record responsive =
  isSmallDevice :: bool
  isMediumDevice :: bool
  isLargeDevice :: bool
  listening :: bool

definition useResponsive_init :: responsive where
  "useResponsive_init =
    \<lparr>isSmallDevice = False, isMediumDevice = False, isLargeDevice = False,
     listening = False\<rparr>"

text \<open>\<^verbatim>\<open>checkMediaQueries\<close>, run while the window is \<open>w\<close> pixels wide.\<close>

definition checkMediaQueries :: "real \<Rightarrow> responsive \<Rightarrow> responsive" where
  "checkMediaQueries w s =
    s\<lparr>isSmallDevice := matches w (MaxWidth 768),
      isMediumDevice := matches w (And (MinWidth 769) (MaxWidth 1024)),
      isLargeDevice := matches w (MinWidth 1025)\<rparr>"

text \<open>
  What happens to the hook: the effect runs on mount (the initial check, then
  \<^verbatim>\<open>addEventListener\<close>), the window fires \<^verbatim>\<open>resize\<close> (which reaches
  \<^verbatim>\<open>handleResize\<close> only while the listener is registered), and the effect's cleanup
  runs on unmount. \<open>Mount\<close> and \<open>Resize\<close> carry the width of the window at that moment.
\<close>

datatype hook_event = Mount real | Resize real | Unmount

fun hook_step :: "responsive \<Rightarrow> hook_event \<Rightarrow> responsive" where
  "hook_step s (Mount w) = (checkMediaQueries w s)\<lparr>listening := True\<rparr>"
| "hook_step s (Resize w) = (if listening s then checkMediaQueries w s else s)"
| "hook_step s Unmount = s\<lparr>listening := False\<rparr>"

section \<open>Movie list page (src/app/page.tsx)\<close>

subsection \<open>Data\<close>

text \<open>The interfaces \<^verbatim>\<open>Movie\<close> (its field \<^verbatim>\<open>_id\<close> is \<open>movie_id\<close> here) and \<^verbatim>\<open>Pagination\<close>.\<close>

record Movie =
  movie_id :: string
  title :: string
  publishingYear :: int
  poster :: string

record Pagination =
  currentPage :: int
  totalPages :: int
  totalMovies :: int

text \<open>The component's \<^verbatim>\<open>useState\<close> cells; \<open>movies = None\<close> is \<^verbatim>\<open>null\<close>.\<close>

record home_state =
  movies :: "Movie list option"
  loading :: bool
  pagination :: Pagination
  hasMore :: bool

definition home_init :: home_state where
  "home_init =
    \<lparr>movies = None, loading = False,
     pagination = \<lparr>currentPage = 1, totalPages = 1, totalMovies = 0\<rparr>,
     hasMore = True\<rparr>"

definition limit :: int where
  "limit = 8"

text \<open>\<^verbatim>\<open>response.data\<close> of \<^verbatim>\<open>GET /api/movies\<close>.\<close>

record movies_data =
  data_movies :: "Movie list"
  data_pagination :: Pagination

datatype AxiosError = AxiosError (message: string)

text \<open>How an awaited request settles.\<close>

datatype 'a settled = Fulfilled 'a | Rejected AxiosError

text \<open>
  What the component does to the world outside its state, in the order it does it:
  requests (\<^verbatim>\<open>axios.get\<close> with its query parameters), \<^verbatim>\<open>console.error\<close> with its
  arguments, toasts, and navigation (\<^verbatim>\<open>router.push\<close>).
\<close>

datatype log_arg = Str string | Err AxiosError

datatype effect =
    HttpGet string "(string \<times> int) list"
  | ConsoleError "log_arg list"
  | ToastSuccess string
  | ToastError string
  | RouterPush string

fun is_toast :: "effect \<Rightarrow> bool" where
  "is_toast (ToastSuccess m) = True"
| "is_toast (ToastError m) = True"
| "is_toast e = False"

subsection \<open>JavaScript numbers\<close>

text \<open>
  Page numbers are JavaScript numbers, that is IEEE 754 doubles, holding integers; the
  model writes them as \<open>int\<close>. Comparison of two of them is exact. Addition is the exact
  sum rounded to the nearest double, ties to the even mantissa: exact up to magnitude
  \<open>2 ^ 53\<close>, and rounded to 53 significant bits beyond.

  \<open>double_shift n\<close> is the number of low bits of \<open>n\<close> that do not fit a 53-bit mantissa.
\<close>

function double_shift :: "nat \<Rightarrow> nat" where
  "double_shift n = (if n < 2 ^ 53 then 0 else Suc (double_shift (n div 2)))"
  by pat_completeness auto
termination
  by (relation "measure (\<lambda>n. n)") auto

definition round_to_double :: "nat \<Rightarrow> nat" where
  "round_to_double n =
    (let e = double_shift n; q = n div 2 ^ e; r = n mod 2 ^ e
     in if 2 * r > 2 ^ e \<or> (2 * r = 2 ^ e \<and> odd q) then (q + 1) * 2 ^ e else q * 2 ^ e)"

definition js_number :: "int \<Rightarrow> int" where
  "js_number n = sgn n * int (round_to_double (nat \<bar>n\<bar>))"

text \<open>
  The operator \<^verbatim>\<open>+\<close> on two numbers. (The component only ever adds 1 to a page number,
  which cannot overflow the range of the doubles.)
\<close>

definition js_add :: "int \<Rightarrow> int \<Rightarrow> int" where
  "js_add a b = js_number (a + b)"

subsection \<open>Statements, exceptions and handlers\<close>

text \<open>
  A piece of the component's code acts on the state and the effects so far, and either
  completes with a value (\<open>Inr\<close>) or throws (\<open>Inl\<close>); what it did before throwing stays
  done.
\<close>

type_synonym world = "home_state \<times> effect list"

type_synonym 'a js = "world \<Rightarrow> (AxiosError + 'a) \<times> world"

definition skip :: "unit js" where
  "skip w = (Inr (), w)"

definition set_state :: "(home_state \<Rightarrow> home_state) \<Rightarrow> unit js" where
  "set_state f w = (Inr (), (f (fst w), snd w))"

definition emit :: "effect \<Rightarrow> unit js" where
  "emit e w = (Inr (), (fst w, snd w @ [e]))"

text \<open>\<^verbatim>\<open>await p\<close>: the value of a fulfilled promise, a throw of a rejected one.\<close>

definition await :: "'a settled \<Rightarrow> 'a js" where
  "await p w = (case p of Fulfilled v \<Rightarrow> (Inr v, w) | Rejected e \<Rightarrow> (Inl e, w))"

definition seq :: "'a js \<Rightarrow> ('a \<Rightarrow> 'b js) \<Rightarrow> 'b js" where
  "seq m f w = (case m w of (Inl e, w') \<Rightarrow> (Inl e, w') | (Inr v, w') \<Rightarrow> f v w')"

definition try_catch :: "'a js \<Rightarrow> (AxiosError \<Rightarrow> 'a js) \<Rightarrow> 'a js" where
  "try_catch m h w = (case m w of (Inl e, w') \<Rightarrow> h e w' | (Inr v, w') \<Rightarrow> (Inr v, w'))"

text \<open>\<^verbatim>\<open>finally\<close> runs either way; the outcome of the block before it stands unless \<^verbatim>\<open>finally\<close> itself throws.\<close>

definition try_finally :: "'a js \<Rightarrow> unit js \<Rightarrow> 'a js" where
  "try_finally m f w =
    (case m w of (r, w') \<Rightarrow>
      (case f w' of (Inl e, w'') \<Rightarrow> (Inl e, w'') | (Inr u, w'') \<Rightarrow> (r, w'')))"

subsection \<open>The handlers\<close>

text \<open>
  \<^verbatim>\<open>fetchMovies(page, append)\<close>, run to completion with no other handler running in
  between; \<open>response\<close> is how the request it issues settles. The updater passed to
  \<^verbatim>\<open>setMovies\<close> reads the list held when it is applied.
\<close>

definition fetchMovies :: "int \<Rightarrow> bool \<Rightarrow> movies_data settled \<Rightarrow> unit js" where
  "fetchMovies page append_mode response =
    seq (set_state (\<lambda>s. s\<lparr>loading := True\<rparr>)) (\<lambda>_.
    try_finally
      (try_catch
        (seq (emit (HttpGet ''/api/movies'' [(''page'', page), (''limit'', limit)])) (\<lambda>_.
         seq (await response) (\<lambda>data.
         let fetchedMovies = data_movies data in
         seq (set_state (\<lambda>s. s\<lparr>movies :=
                Some (if append_mode
                      then (case movies s of None \<Rightarrow> [] | Some prevMovies \<Rightarrow> prevMovies)
                           @ fetchedMovies
                      else fetchedMovies)\<rparr>)) (\<lambda>_.
         seq (set_state (\<lambda>s. s\<lparr>pagination :=
                \<lparr>currentPage = currentPage (data_pagination data),
                 totalPages = totalPages (data_pagination data),
                 totalMovies = totalMovies (data_pagination data)\<rparr>\<rparr>)) (\<lambda>_.
         set_state (\<lambda>s. s\<lparr>hasMore := page < totalPages (data_pagination data)\<rparr>))))))
        (\<lambda>error. emit (ConsoleError [Str ''Failed to fetch movies:'', Err error])))
      (set_state (\<lambda>s. s\<lparr>loading := False\<rparr>)))"

definition loadMoreMovies :: "movies_data settled \<Rightarrow> unit js" where
  "loadMoreMovies response w =
    (if hasMore (fst w) \<and> \<not> loading (fst w)
     then fetchMovies (js_add (currentPage (pagination (fst w))) 1) True response w
     else skip w)"

text \<open>
  The callback of the \<^verbatim>\<open>IntersectionObserver\<close>: \<open>isIntersecting\<close> is
  \<^verbatim>\<open>entries[0].isIntersecting\<close>, \<open>r\<close> the state of \<^verbatim>\<open>useResponsive\<close>.
\<close>

definition observer_callback :: "bool \<Rightarrow> responsive \<Rightarrow> movies_data settled \<Rightarrow> unit js" where
  "observer_callback isIntersecting r response w =
    (if isIntersecting \<and> isSmallDevice r \<and> hasMore (fst w) \<and> \<not> loading (fst w)
     then loadMoreMovies response w
     else skip w)"

definition goToPage :: "int \<Rightarrow> movies_data settled \<Rightarrow> unit js" where
  "goToPage page response w =
    (if page \<ge> 1 \<and> page \<le> totalPages (pagination (fst w))
     then fetchMovies page False response w
     else skip w)"

definition logout :: "unit settled \<Rightarrow> unit js" where
  "logout response =
    try_catch
      (seq (emit (HttpGet ''/api/logout'' [])) (\<lambda>_.
       seq (await response) (\<lambda>_.
       seq (emit (ToastSuccess ''Logout successful'')) (\<lambda>_.
       emit (RouterPush ''/login'')))))
      (\<lambda>error.
        seq (emit (ConsoleError [Str (message error)])) (\<lambda>_.
        emit (ToastError ''Logout failed. Please try again.'')))"

section \<open>Auxiliary definitions\<close>

text \<open>The hook's three flags say what the media queries say of a window \<open>w\<close> pixels wide.\<close>

definition classified :: "real \<Rightarrow> responsive \<Rightarrow> bool" where
  "classified w s =
    (isSmallDevice s = (w \<le> 768) \<and> isMediumDevice s = (769 \<le> w \<and> w \<le> 1024) \<and>
     isLargeDevice s = (1025 \<le> w))"

text \<open>Sample data for the concrete runs below.\<close>

definition sample_movie_a :: Movie where
  "sample_movie_a =
    \<lparr>movie_id = ''m1'', title = ''Alien'', publishingYear = 1979, poster = ''/alien.jpg''\<rparr>"

definition sample_movie_b :: Movie where
  "sample_movie_b =
    \<lparr>movie_id = ''m2'', title = ''Heat'', publishingYear = 1995, poster = ''/heat.jpg''\<rparr>"

definition sample_state :: home_state where
  "sample_state =
    \<lparr>movies = Some [sample_movie_a], loading = False,
     pagination = \<lparr>currentPage = 1, totalPages = 3, totalMovies = 3\<rparr>,
     hasMore = True\<rparr>"

definition sample_page_two :: movies_data where
  "sample_page_two =
    \<lparr>data_movies = [sample_movie_b],
     data_pagination = \<lparr>currentPage = 2, totalPages = 3, totalMovies = 3\<rparr>\<rparr>"

section \<open>Properties of the route guard\<close>

lemma array_includes_authRoutes: "array_includes authRoutes p = spec_auth_page p"
  by (auto simp: array_includes_def authRoutes_def spec_auth_page_def)

lemma array_includes_protectedRoutes:
  "array_includes protectedRoutes p = (p = ''/add'' \<or> p = ''/edit/:id'' \<or> p = ''/'')"
  by (auto simp: array_includes_def protectedRoutes_def)

lemma protectedRoutes_spec_protected:
  "array_includes protectedRoutes p \<Longrightarrow> spec_protected_page p"
  by (auto simp: array_includes_protectedRoutes spec_protected_page_def spec_edit_page_def)

text \<open>
  C1. Claimed: every request to a protected page (\<^verbatim>\<open>/add\<close>, \<^verbatim>\<open>/edit/:id\<close> for any
  concrete id, or \<^verbatim>\<open>/\<close>) that carries no \<^verbatim>\<open>token\<close> cookie is redirected to
  \<^verbatim>\<open>/login\<close>. The code compares the path with the literal string \<^verbatim>\<open>/edit/:id\<close>, so
  the request for the edit page of movie 123, a protected page with no cookie at all,
  is passed through instead of being redirected.
\<close>

theorem middleware_edit_page_unauthenticated_passes:
  "spec_protected_page ''/edit/123'' \<and>
   cookies \<lparr>cookies = Map.empty, pathname = ''/edit/123''\<rparr> ''token'' = None \<and>
   middleware \<lparr>cookies = Map.empty, pathname = ''/edit/123''\<rparr> = Next"
  by (simp add: middleware_def array_includes_protectedRoutes array_includes_authRoutes
      spec_auth_page_def spec_protected_page_def spec_edit_page_def)

text \<open>
  A \<^verbatim>\<open>token\<close> cookie whose value is the empty string is present but falsy: on
  \<^verbatim>\<open>/login\<close> the request is passed through, not sent home, and on \<^verbatim>\<open>/\<close>, which is
  not an auth page, it is sent to \<^verbatim>\<open>/login\<close>, not passed through.
\<close>

theorem middleware_empty_token_counterexample:
  "cookies \<lparr>cookies = [''token'' \<mapsto> ''''], pathname = ''/login''\<rparr> ''token'' = Some '''' \<and>
   spec_auth_page ''/login'' \<and>
   middleware \<lparr>cookies = [''token'' \<mapsto> ''''], pathname = ''/login''\<rparr> = Next \<and>
   middleware \<lparr>cookies = [''token'' \<mapsto> ''''], pathname = ''/''\<rparr> = Redirect ''/login''"
  by (simp add: middleware_def array_includes_protectedRoutes array_includes_authRoutes
      spec_auth_page_def)

text \<open>
  C2, as the code has it. A request whose \<^verbatim>\<open>token\<close> cookie has a non-empty value is
  redirected to \<^verbatim>\<open>/\<close> on an auth page (\<^verbatim>\<open>/login\<close>, \<^verbatim>\<open>/signup\<close>) and passed through
  on every other page; a request with no \<^verbatim>\<open>token\<close> cookie, or an empty one, is passed
  through on every page that is not protected.
\<close>

theorem middleware_token_rules:
  "(truthy (cookies req ''token'') \<and> spec_auth_page (pathname req)
      \<longrightarrow> middleware req = Redirect ''/'') \<and>
   (truthy (cookies req ''token'') \<and> \<not> spec_auth_page (pathname req)
      \<longrightarrow> middleware req = Next) \<and>
   (\<not> truthy (cookies req ''token'') \<and> \<not> spec_protected_page (pathname req)
      \<longrightarrow> middleware req = Next)"
  using protectedRoutes_spec_protected [of "pathname req"]
  by (auto simp: middleware_def array_includes_authRoutes)

theorem middleware_token_rules_witness:
  "truthy (Some ''abc'') \<and> spec_auth_page ''/login'' \<and>
   middleware \<lparr>cookies = [''token'' \<mapsto> ''abc''], pathname = ''/login''\<rparr> = Redirect ''/'' \<and>
   middleware \<lparr>cookies = [''token'' \<mapsto> ''abc''], pathname = ''/edit/123''\<rparr> = Next \<and>
   middleware \<lparr>cookies = Map.empty, pathname = ''/signup''\<rparr> = Next"
proof -
  let ?a = "\<lparr>cookies = [''token'' \<mapsto> ''abc''], pathname = ''/login''\<rparr>"
  let ?b = "\<lparr>cookies = [''token'' \<mapsto> ''abc''], pathname = ''/edit/123''\<rparr>"
  let ?c = "\<lparr>cookies = Map.empty, pathname = ''/signup''\<rparr>"
  have a: "truthy (cookies ?a ''token'') \<and> spec_auth_page (pathname ?a)"
    by (simp add: spec_auth_page_def)
  have b: "truthy (cookies ?b ''token'') \<and> \<not> spec_auth_page (pathname ?b)"
    by (simp add: spec_auth_page_def)
  have c: "\<not> truthy (cookies ?c ''token'') \<and> \<not> spec_protected_page (pathname ?c)"
    by (simp add: spec_protected_page_def spec_edit_page_def)
  have "middleware ?a = Redirect ''/''"
    using a middleware_token_rules [of ?a] by blast
  moreover have "middleware ?b = Next"
    using b middleware_token_rules [of ?b] by blast
  moreover have "middleware ?c = Next"
    using c middleware_token_rules [of ?c] by blast
  ultimately show ?thesis
    by (simp add: spec_auth_page_def)
qed

text \<open>
  Two requests for \<^verbatim>\<open>/login\<close>, both with a \<^verbatim>\<open>token\<close> cookie, one empty and one
  not: the decisions differ.
\<close>

theorem middleware_token_value_counterexample:
  "cookies \<lparr>cookies = [''token'' \<mapsto> ''''], pathname = ''/login''\<rparr> ''token'' \<noteq> None \<and>
   cookies \<lparr>cookies = [''token'' \<mapsto> ''abc''], pathname = ''/login''\<rparr> ''token'' \<noteq> None \<and>
   middleware \<lparr>cookies = [''token'' \<mapsto> ''''], pathname = ''/login''\<rparr>
     \<noteq> middleware \<lparr>cookies = [''token'' \<mapsto> ''abc''], pathname = ''/login''\<rparr>"
  by (simp add: middleware_def array_includes_protectedRoutes array_includes_authRoutes
      spec_auth_page_def)

text \<open>
  C3, as the code has it. The decision depends only on the path and on whether the
  \<^verbatim>\<open>token\<close> cookie is present with a non-empty value: two requests for the same path
  that agree on that get the same decision, whatever the values of their tokens and
  whatever other cookies they carry.
\<close>

theorem middleware_depends_on_truthiness_and_path:
  "pathname r1 = pathname r2 \<Longrightarrow>
   truthy (cookies r1 ''token'') = truthy (cookies r2 ''token'') \<Longrightarrow>
   middleware r1 = middleware r2"
  by (simp add: middleware_def Let_def)

theorem middleware_depends_on_truthiness_and_path_witness:
  "truthy (Some ''abc'') = truthy (Some ''xyz'') \<and>
   middleware
     \<lparr>cookies = [''token'' \<mapsto> ''abc'', ''theme'' \<mapsto> ''dark''], pathname = ''/login''\<rparr>
   = middleware \<lparr>cookies = [''token'' \<mapsto> ''xyz''], pathname = ''/login''\<rparr>"
  using middleware_depends_on_truthiness_and_path
    [of "\<lparr>cookies = [''token'' \<mapsto> ''abc'', ''theme'' \<mapsto> ''dark''], pathname = ''/login''\<rparr>"
        "\<lparr>cookies = [''token'' \<mapsto> ''xyz''], pathname = ''/login''\<rparr>"]
  by simp

section \<open>Properties of the viewport classifier\<close>

lemma checkMediaQueries_flags:
  "isSmallDevice (checkMediaQueries w s) = (w \<le> 768)"
  "isMediumDevice (checkMediaQueries w s) = (769 \<le> w \<and> w \<le> 1024)"
  "isLargeDevice (checkMediaQueries w s) = (1025 \<le> w)"
  "listening (checkMediaQueries w s) = listening s"
  by (simp_all add: checkMediaQueries_def)

text \<open>While the listener is registered, every resize leaves the flags classifying the latest width.\<close>

lemma resizes_keep_classified:
  "listening s \<Longrightarrow> classified w s \<Longrightarrow>
   listening (foldl hook_step s (map Resize ws)) \<and>
   classified (last (w # ws)) (foldl hook_step s (map Resize ws))"
proof (induction ws arbitrary: s w)
  case Nil
  then show ?case by simp
next
  case (Cons v vs)
  have "listening (hook_step s (Resize v))" "classified v (hook_step s (Resize v))"
    using Cons.prems by (simp_all add: classified_def checkMediaQueries_flags)
  from Cons.IH [OF this] show ?case by simp
qed

text \<open>
  At a width of exactly 1025 pixels the hook reports a large device, although 1025 is
  not greater than 1025.
\<close>

theorem useResponsive_large_counterexample:
  "isLargeDevice (hook_step useResponsive_init (Mount 1025)) \<noteq> ((1025::real) > 1025)"
  by (simp add: useResponsive_init_def checkMediaQueries_def)

text \<open>
  C4, as the code has it. After the mount at width \<open>w0\<close> and any sequence of resize
  events to the widths \<open>ws\<close>, the three flags classify the latest width \<open>w\<close>:
  \<open>isSmallDevice\<close> iff \<open>w \<le> 768\<close>, \<open>isMediumDevice\<close> iff \<open>769 \<le> w \<le> 1024\<close>, and
  \<open>isLargeDevice\<close> iff \<open>w \<ge> 1025\<close> (not \<open>w > 1025\<close>).
\<close>

theorem useResponsive_classifies:
  "isSmallDevice (foldl hook_step (hook_step useResponsive_init (Mount w0)) (map Resize ws))
     = (last (w0 # ws) \<le> 768) \<and>
   isMediumDevice (foldl hook_step (hook_step useResponsive_init (Mount w0)) (map Resize ws))
     = (769 \<le> last (w0 # ws) \<and> last (w0 # ws) \<le> 1024) \<and>
   isLargeDevice (foldl hook_step (hook_step useResponsive_init (Mount w0)) (map Resize ws))
     = (1025 \<le> last (w0 # ws))"
proof -
  have "listening (hook_step useResponsive_init (Mount w0))"
    "classified w0 (hook_step useResponsive_init (Mount w0))"
    by (simp_all add: classified_def checkMediaQueries_flags)
  from resizes_keep_classified [OF this, of ws] show ?thesis
    by (simp add: classified_def)
qed

theorem useResponsive_classifies_witness:
  "isSmallDevice
     (foldl hook_step (hook_step useResponsive_init (Mount 1440)) (map Resize [1025, 500])) \<and>
   \<not> isLargeDevice
     (foldl hook_step (hook_step useResponsive_init (Mount 1440)) (map Resize [1025, 500])) \<and>
   isLargeDevice (foldl hook_step (hook_step useResponsive_init (Mount 1025)) (map Resize []))"
  using useResponsive_classifies [of 1440 "[1025, 500]"] useResponsive_classifies [of 1025 "[]"]
  by simp

section \<open>Properties of the movie list page\<close>

lemmas js_defs =
  seq_def try_catch_def try_finally_def set_state_def emit_def await_def skip_def

text \<open>Addition of numbers is exact up to \<open>2 ^ 53\<close> and rounds beyond it.\<close>

lemma round_to_double_exact: "n \<le> 2 ^ 53 \<Longrightarrow> round_to_double n = n"
proof (cases "n < 2 ^ 53")
  case True
  then show ?thesis by (simp add: round_to_double_def)
next
  case False
  assume "n \<le> 2 ^ 53"
  with False have n: "n = 2 ^ 53" by simp
  have "double_shift (2 ^ 53) = Suc 0"
    by simp
  then show ?thesis
    unfolding n round_to_double_def by (simp add: Let_def)
qed

lemma js_number_exact: "\<bar>n\<bar> \<le> 2 ^ 53 \<Longrightarrow> js_number n = n"
proof -
  assume "\<bar>n\<bar> \<le> 2 ^ 53"
  then have "nat \<bar>n\<bar> \<le> 2 ^ 53"
    by (simp add: nat_le_iff)
  then have "round_to_double (nat \<bar>n\<bar>) = nat \<bar>n\<bar>"
    by (rule round_to_double_exact)
  then show ?thesis
    by (simp add: js_number_def mult_sgn_abs)
qed

lemma js_add_one_exact: "- (2 ^ 53) \<le> a \<Longrightarrow> a < 2 ^ 53 \<Longrightarrow> js_add a 1 = a + 1"
  by (simp add: js_add_def js_number_exact abs_le_iff)

lemma js_add_one_rounds:
  "js_add 9007199254740992 1 = 9007199254740992"
  "js_add 9007199254740994 1 = 9007199254740996"
  "js_add 18014398509481984 1 = 18014398509481984"
  "js_add (- 9007199254740992) 1 = - 9007199254740991"
  by (simp_all add: js_add_def js_number_def round_to_double_def Let_def)

text \<open>The two runs of \<^verbatim>\<open>fetchMovies\<close> and of \<^verbatim>\<open>logout\<close>, computed once.\<close>

lemma fetchMovies_rejected:
  "fetchMovies page append_mode (Rejected e) (st, effs) =
    (Inr (), (st\<lparr>loading := False\<rparr>,
      effs @ [HttpGet ''/api/movies'' [(''page'', page), (''limit'', limit)],
              ConsoleError [Str ''Failed to fetch movies:'', Err e]]))"
  by (simp add: fetchMovies_def js_defs)

lemma fetchMovies_fulfilled:
  "fetchMovies page append_mode (Fulfilled d) (st, effs) =
    (Inr (),
     (st\<lparr>movies := Some (if append_mode
                           then (case movies st of None \<Rightarrow> [] | Some prevMovies \<Rightarrow> prevMovies)
                                @ data_movies d
                           else data_movies d),
         loading := False,
         pagination := \<lparr>currentPage = currentPage (data_pagination d),
                        totalPages = totalPages (data_pagination d),
                        totalMovies = totalMovies (data_pagination d)\<rparr>,
         hasMore := page < totalPages (data_pagination d)\<rparr>,
      effs @ [HttpGet ''/api/movies'' [(''page'', page), (''limit'', limit)]]))"
  by (simp add: fetchMovies_def js_defs)

lemma logout_rejected:
  "logout (Rejected e) (st, effs) =
    (Inr (), (st, effs @ [HttpGet ''/api/logout'' [], ConsoleError [Str (message e)],
                          ToastError ''Logout failed. Please try again.'']))"
  by (simp add: logout_def js_defs)

lemma logout_fulfilled:
  "logout (Fulfilled u) (st, effs) =
    (Inr (), (st, effs @ [HttpGet ''/api/logout'' [], ToastSuccess ''Logout successful'',
                          RouterPush ''/login'']))"
  by (simp add: logout_def js_defs)

text \<open>
  C5. For every page \<open>p\<close> with \<open>1 \<le> p \<le> totalPages\<close>, \<^verbatim>\<open>goToPage(p)\<close> is
  \<^verbatim>\<open>fetchMovies(p)\<close> in replace mode: it requests page \<open>p\<close> with limit 8, and when the
  request succeeds the movie list is exactly the list the server returned, whatever
  list was held before.
\<close>

theorem goToPage_replaces_movies:
  "1 \<le> p \<Longrightarrow> p \<le> totalPages (pagination st) \<Longrightarrow>
   goToPage p (Fulfilled d) (st, effs) = fetchMovies p False (Fulfilled d) (st, effs) \<and>
   movies (fst (snd (goToPage p (Fulfilled d) (st, effs)))) = Some (data_movies d) \<and>
   snd (snd (goToPage p (Fulfilled d) (st, effs)))
     = effs @ [HttpGet ''/api/movies'' [(''page'', p), (''limit'', 8)]]"
  by (simp add: goToPage_def fetchMovies_fulfilled limit_def)

theorem goToPage_replaces_movies_witness:
  "(1::int) \<le> 2 \<and> 2 \<le> totalPages (pagination sample_state) \<and>
   movies sample_state = Some [sample_movie_a] \<and>
   movies (fst (snd (goToPage 2 (Fulfilled sample_page_two) (sample_state, []))))
     = Some [sample_movie_b] \<and>
   snd (snd (goToPage 2 (Fulfilled sample_page_two) (sample_state, [])))
     = [HttpGet ''/api/movies'' [(''page'', 2), (''limit'', 8)]]"
proof -
  have lo: "(1::int) \<le> 2" and hi: "2 \<le> totalPages (pagination sample_state)"
    by (simp_all add: sample_state_def)
  note run = goToPage_replaces_movies [OF lo hi, of sample_page_two "[]"]
  have "movies (fst (snd (goToPage 2 (Fulfilled sample_page_two) (sample_state, []))))
          = Some (data_movies sample_page_two)"
    using run by blast
  moreover have "snd (snd (goToPage 2 (Fulfilled sample_page_two) (sample_state, [])))
          = [] @ [HttpGet ''/api/movies'' [(''page'', 2), (''limit'', 8)]]"
    using run by blast
  ultimately show ?thesis
    using hi by (simp add: sample_state_def sample_page_two_def)
qed

text \<open>
  C6. On a small viewport, when the observed element intersects while \<open>hasMore\<close> is
  true and \<open>loading\<close> is false, the callback is \<^verbatim>\<open>fetchMovies(currentPage + 1, true)\<close>,
  and when the request succeeds the movie list is the list held before (empty when there
  was none) followed by the fetched movies, in that order. The sum is the sum of
  JavaScript numbers: for every \<open>currentPage\<close> from \<open>- (2 ^ 53)\<close> up to, but not
  including, \<open>2 ^ 53\<close> the page requested is exactly the integer \<open>currentPage + 1\<close>.
\<close>

theorem observer_appends_next_page:
  "isIntersecting \<Longrightarrow> isSmallDevice r \<Longrightarrow> hasMore st \<Longrightarrow> \<not> loading st \<Longrightarrow>
   observer_callback isIntersecting r response (st, effs)
     = fetchMovies (js_add (currentPage (pagination st)) 1) True response (st, effs) \<and>
   movies (fst (snd (observer_callback isIntersecting r (Fulfilled d) (st, effs))))
     = Some ((case movies st of None \<Rightarrow> [] | Some prevMovies \<Rightarrow> prevMovies) @ data_movies d) \<and>
   (- (2 ^ 53) \<le> currentPage (pagination st) \<and> currentPage (pagination st) < 2 ^ 53 \<longrightarrow>
      observer_callback isIntersecting r response (st, effs)
        = fetchMovies (currentPage (pagination st) + 1) True response (st, effs) \<and>
      snd (snd (observer_callback isIntersecting r (Fulfilled d) (st, effs)))
        = effs @ [HttpGet ''/api/movies''
                    [(''page'', currentPage (pagination st) + 1), (''limit'', 8)]])"
proof -
  assume guard: "isIntersecting" "isSmallDevice r" "hasMore st" "\<not> loading st"
  have call: "observer_callback isIntersecting r response' (st, effs)
      = fetchMovies (js_add (currentPage (pagination st)) 1) True response' (st, effs)"
    for response'
    using guard by (simp add: observer_callback_def loadMoreMovies_def)
  have appended: "movies (fst (snd (observer_callback isIntersecting r (Fulfilled d) (st, effs))))
      = Some ((case movies st of None \<Rightarrow> [] | Some prevMovies \<Rightarrow> prevMovies) @ data_movies d)"
    by (simp add: call fetchMovies_fulfilled)
  have next_page: "observer_callback isIntersecting r response (st, effs)
        = fetchMovies (currentPage (pagination st) + 1) True response (st, effs) \<and>
      snd (snd (observer_callback isIntersecting r (Fulfilled d) (st, effs)))
        = effs @ [HttpGet ''/api/movies''
                    [(''page'', currentPage (pagination st) + 1), (''limit'', 8)]]"
    if "- (2 ^ 53) \<le> currentPage (pagination st)" "currentPage (pagination st) < 2 ^ 53"
    using js_add_one_exact [OF that]
    by (simp add: call fetchMovies_fulfilled limit_def)
  from call appended next_page show ?thesis
    by blast
qed

theorem observer_appends_next_page_witness:
  "isSmallDevice (hook_step useResponsive_init (Mount 375)) \<and>
   hasMore sample_state \<and> \<not> loading sample_state \<and>
   - (2 ^ 53) \<le> currentPage (pagination sample_state) \<and>
   currentPage (pagination sample_state) < 2 ^ 53 \<and>
   snd (snd (observer_callback True (hook_step useResponsive_init (Mount 375))
               (Fulfilled sample_page_two) (sample_state, [])))
     = [HttpGet ''/api/movies'' [(''page'', 2), (''limit'', 8)]] \<and>
   movies (fst (snd (observer_callback True (hook_step useResponsive_init (Mount 375))
                       (Fulfilled sample_page_two) (sample_state, []))))
     = Some [sample_movie_a, sample_movie_b]"
proof -
  have small: "isSmallDevice (hook_step useResponsive_init (Mount 375))"
    by (simp add: checkMediaQueries_flags)
  have more: "hasMore sample_state" and idle: "\<not> loading sample_state"
    by (simp_all add: sample_state_def)
  have safe: "- (2 ^ 53) \<le> currentPage (pagination sample_state) \<and>
      currentPage (pagination sample_state) < 2 ^ 53"
    by (simp add: sample_state_def)
  note run = observer_appends_next_page [OF TrueI small more idle, of _ "[]" sample_page_two]
  have "snd (snd (observer_callback True (hook_step useResponsive_init (Mount 375))
                    (Fulfilled sample_page_two) (sample_state, [])))
          = [] @ [HttpGet ''/api/movies''
                    [(''page'', currentPage (pagination sample_state) + 1), (''limit'', 8)]]"
    using run safe by blast
  moreover have "movies (fst (snd (observer_callback True
                    (hook_step useResponsive_init (Mount 375))
                    (Fulfilled sample_page_two) (sample_state, []))))
          = Some ((case movies sample_state of None \<Rightarrow> [] | Some prevMovies \<Rightarrow> prevMovies)
                  @ data_movies sample_page_two)"
    using run by blast
  ultimately show ?thesis
    using small more idle safe by (simp add: sample_state_def sample_page_two_def)
qed

text \<open>A failed fetch of page 1 on the fresh page shows no toast at all.\<close>

theorem fetch_failure_no_toast_counterexample:
  "filter is_toast
     (snd (snd (fetchMovies 1 False (Rejected (AxiosError ''Network Error'')) (home_init, []))))
   = []"
  by (simp add: fetchMovies_rejected)

text \<open>
  C7, as the code has it. A failed movie fetch is caught and logged with
  \<^verbatim>\<open>console.error\<close>, with no notification; a failed logout is caught, logged and shown
  as an error toast. Either handler completes normally (nothing is thrown out of it),
  the fetch with \<open>loading\<close> reset and the rest of the state as it was, the logout with
  the state untouched.
\<close>

theorem failures_caught_and_logged:
  "fetchMovies page append_mode (Rejected e) (st, effs) =
     (Inr (), (st\<lparr>loading := False\<rparr>,
       effs @ [HttpGet ''/api/movies'' [(''page'', page), (''limit'', 8)],
               ConsoleError [Str ''Failed to fetch movies:'', Err e]])) \<and>
   logout (Rejected e) (st, effs) =
     (Inr (), (st, effs @ [HttpGet ''/api/logout'' [], ConsoleError [Str (message e)],
                           ToastError ''Logout failed. Please try again.'']))"
  by (simp add: fetchMovies_rejected logout_rejected limit_def)

text \<open>A failed logout on the fresh page never navigates to \<^verbatim>\<open>/login\<close>.\<close>

theorem logout_failure_no_redirect_counterexample:
  "RouterPush ''/login''
     \<notin> set (snd (snd (logout (Rejected (AxiosError ''Network Error'')) (home_init, []))))"
  by (simp add: logout_rejected)

text \<open>
  C8, as the code has it. \<^verbatim>\<open>logout\<close> issues \<^verbatim>\<open>GET /api/logout\<close>; when the request
  succeeds it shows a success toast and then navigates to \<^verbatim>\<open>/login\<close>; when the
  request fails it logs the error and shows an error toast, and does not navigate.
\<close>

theorem logout_redirects_on_success_only:
  "snd (snd (logout (Fulfilled ()) (st, effs)))
     = effs @ [HttpGet ''/api/logout'' [], ToastSuccess ''Logout successful'',
               RouterPush ''/login''] \<and>
   snd (snd (logout (Rejected e) (st, effs)))
     = effs @ [HttpGet ''/api/logout'' [], ConsoleError [Str (message e)],
               ToastError ''Logout failed. Please try again.'']"
  by (simp add: logout_rejected logout_fulfilled)

text \<open>
  C9. When the request of \<^verbatim>\<open>fetchMovies\<close> fails, the movie list, the pagination and
  \<open>hasMore\<close> are what they were before the call; and however the request settles,
  \<^verbatim>\<open>fetchMovies\<close> completes normally with \<open>loading\<close> false.
\<close>

theorem fetchMovies_failure_atomic:
  "movies (fst (snd (fetchMovies page append_mode (Rejected e) (st, effs)))) = movies st \<and>
   pagination (fst (snd (fetchMovies page append_mode (Rejected e) (st, effs)))) = pagination st \<and>
   hasMore (fst (snd (fetchMovies page append_mode (Rejected e) (st, effs)))) = hasMore st \<and>
   fst (fetchMovies page append_mode response (st, effs)) = Inr () \<and>
   loading (fst (snd (fetchMovies page append_mode response (st, effs)))) = False"
  by (cases response) (simp_all add: fetchMovies_rejected fetchMovies_fulfilled)

text \<open>
  C10. For every page \<open>p\<close> with \<open>p < 1\<close> or \<open>p > totalPages\<close>, \<^verbatim>\<open>goToPage(p)\<close> issues no
  request and changes nothing: the state and the effects are what they were.
\<close>

theorem goToPage_out_of_range:
  "p < 1 \<or> p > totalPages (pagination st) \<Longrightarrow>
   goToPage p response (st, effs) = (Inr (), (st, effs))"
  by (auto simp: goToPage_def skip_def)

theorem goToPage_out_of_range_witness:
  "(0::int) < 1 \<and> 4 > totalPages (pagination sample_state) \<and>
   goToPage 0 (Fulfilled sample_page_two) (sample_state, []) = (Inr (), (sample_state, [])) \<and>
   goToPage 4 (Fulfilled sample_page_two) (sample_state, []) = (Inr (), (sample_state, []))"
proof -
  have low: "(0::int) < 1 \<or> 0 > totalPages (pagination sample_state)"
    by simp
  have high: "(4::int) < 1 \<or> 4 > totalPages (pagination sample_state)"
    by (simp add: sample_state_def)
  from goToPage_out_of_range [OF low, of "Fulfilled sample_page_two" "[]"]
    goToPage_out_of_range [OF high, of "Fulfilled sample_page_two" "[]"]
  show ?thesis
    by (simp add: sample_state_def)
qed

end
